theory Spec2Isabelle
  imports Complex_Main "HOL-Library.Word"
begin

unbundle bit_operations_syntax

section \<open>Basic types of the tracker model\<close>

text \<open>
  Go's \<open>byte\<close>, \<open>uint16\<close>, \<open>uint32\<close> and \<open>uint\<close> are machine words; a Go
  \<open>string\<close> is a sequence of bytes and is modelled by \<open>string\<close>. The fixed arrays
  \<open>[20]byte\<close> behind \<open>PeerID\<close> and \<open>InfoHash\<close> are byte lists that the
  constructors below always build with 20 elements.
\<close>

type_synonym byte = "8 word"
type_synonym uint16 = "16 word"
type_synonym uint32 = "32 word"
type_synonym uint = "64 word"

type_synonym PeerID = "byte list"
type_synonym InfoHash = "byte list"

text \<open>\<open>net.IP\<close> is a byte slice: 4 bytes, 16 bytes, or anything else (\<open>nil\<close> is \<open>[]\<close>).\<close>

type_synonym IP = "byte list"

text \<open>\<open>time.Time\<close> values are opaque timestamps.\<close>

type_synonym time = int

section \<open>model: PeerID\<close>

text \<open>
  Go's builtin \<open>copy(dst, src)\<close> overwrites the first \<open>min (len dst) (len src)\<close>
  elements of \<open>dst\<close> and leaves the rest alone.
\<close>

definition copy :: "'a list \<Rightarrow> 'a list \<Rightarrow> 'a list" where
  "copy dst src = (let n = min (length dst) (length src) in take n src @ drop n dst)"

text \<open>Conversion of a Go string to its bytes.\<close>

definition bytes_of :: "string \<Rightarrow> byte list" where
  "bytes_of s = map of_char s"

text \<open>
  \<^verbatim>\<open>func PeerIDFromString(s string) PeerID { var buf [20]byte; copy(buf[:], s); return buf }\<close>
\<close>

definition PeerIDFromString :: "string \<Rightarrow> PeerID" where
  "PeerIDFromString s = copy (replicate 20 0) (bytes_of s)"

section \<open>http: compact peer lists\<close>

record Peer =
  UserPeerID :: uint32
  SpeedUP :: uint32
  SpeedDN :: uint32
  SpeedUPMax :: uint32
  SpeedDNMax :: uint32
  Uploaded :: uint32
  Downloaded :: uint32
  Left :: uint32
  Announces :: uint32
  TotalTime :: uint32
  IP :: IP
  Port :: uint16
  AnnounceLast :: time
  AnnounceFirst :: time
  PeerID :: PeerID
  Location :: "real \<times> real"
  UserID :: uint32
  CreatedOn :: time
  UpdatedOn :: time

text \<open>
  \<open>net.IP.To4\<close> of the Go standard library: a 4-byte address is returned as it is, a
  16-byte address with the IPv4-in-IPv6 prefix gives its last four bytes, anything else
  gives \<open>nil\<close>.
\<close>

definition To4 :: "IP \<Rightarrow> IP" where
  "To4 ip =
     (if length ip = 4 then ip
      else if length ip = 16 \<and> take 10 ip = replicate 10 0 \<and> ip ! 10 = 0xff \<and> ip ! 11 = 0xff
        then drop 12 ip
      else [])"

text \<open>
  \<open>makeCompactPeers\<close>: the loop over the swarm appends to a buffer; \<open>buf.Write\<close> of
  \<open>nil\<close> appends nothing. The two port bytes are written for every peer that is not
  skipped.
\<close>

fun makeCompactPeers :: "Peer list \<Rightarrow> PeerID \<Rightarrow> byte list" where
  "makeCompactPeers [] skipID = []"
| "makeCompactPeers (peer # peers) skipID =
     (if PeerID peer = skipID then makeCompactPeers peers skipID
      else To4 (IP peer)
           @ [ucast (drop_bit 8 (Port peer)), ucast (Port peer AND 0xff)]
           @ makeCompactPeers peers skipID)"

section \<open>http: parsing an announce\<close>

datatype trackerErrCode =
  msgOk | msgMalformedRequest | msgInvalidInfoHash | msgInvalidPeerID | msgInvalidPort
  | msgGenericError

datatype announceType = STARTED | STOPPED | COMPLETED | ANNOUNCE

text \<open>
  \<open>q.Params\<close> is a Go \<open>map[string]string\<close>. Reading a key that is absent gives the
  empty string.
\<close>

type_synonym query = "string \<rightharpoonup> string"

definition Params :: "query \<Rightarrow> string \<Rightarrow> string" where
  "Params q key = (case q key of None \<Rightarrow> [] | Some v \<Rightarrow> v)"

text \<open>
  Modelled from the spec: the names of the query keys (section 4.4, step 2, and the
  \<open>form\<close> tags of \<open>announceRequest\<close>); the constants \<open>paramInfoHash\<close> ... are
  declared outside the files at hand.
\<close>

definition paramInfoHash :: string where "paramInfoHash = ''info_hash''"
definition paramPeerID :: string where "paramPeerID = ''peer_id''"
definition paramPort :: string where "paramPort = ''port''"
definition paramLeft :: string where "paramLeft = ''left''"
definition paramDownloaded :: string where "paramDownloaded = ''downloaded''"
definition paramUploaded :: string where "paramUploaded = ''uploaded''"
definition paramCorrupt :: string where "paramCorrupt = ''corrupt''"
definition paramNumWant :: string where "paramNumWant = ''numwant''"

text \<open>
  Modelled from the spec: the numeric accessors of the query parser (\<open>q.Uint16\<close>,
  \<open>q.Uint32key\<close>, \<open>q.Uint\<close>) are not among the files at hand. The values are base ten
  ASCII; the accessor fails when the key is absent, when the text is not a plain
  sequence of decimal digits, or when the number does not fit the width, as Go's
  \<open>strconv.ParseUint(s, 10, bits)\<close> does.
\<close>

definition isDigit :: "char \<Rightarrow> bool" where
  "isDigit c = (48 \<le> (of_char c :: nat) \<and> (of_char c :: nat) \<le> 57)"

definition digitVal :: "char \<Rightarrow> nat" where
  "digitVal c = of_char c - 48"

fun parseDigits :: "nat \<Rightarrow> string \<Rightarrow> nat option" where
  "parseDigits acc [] = Some acc"
| "parseDigits acc (c # cs) =
     (if isDigit c then parseDigits (acc * 10 + digitVal c) cs else None)"

definition ParseUint :: "nat \<Rightarrow> string \<Rightarrow> nat option" where
  "ParseUint bits s =
     (if s = [] then None
      else case parseDigits 0 s of
             None \<Rightarrow> None
           | Some n \<Rightarrow> if n < 2 ^ bits then Some n else None)"

definition queryUint :: "nat \<Rightarrow> query \<Rightarrow> string \<Rightarrow> nat option" where
  "queryUint bits q key = (case q key of None \<Rightarrow> None | Some str \<Rightarrow> ParseUint bits str)"

text \<open>
  \<open>getUint16Key\<close>, \<open>getUint32Key\<close>, \<open>getUintKey\<close>: the default on any error,
  otherwise \<open>util.UMax(0, v)\<close>, the larger of 0 and the parsed value.
\<close>

definition getUint16Key :: "query \<Rightarrow> string \<Rightarrow> uint16 \<Rightarrow> uint16" where
  "getUint16Key q key def =
     (case queryUint 16 q key of None \<Rightarrow> def | Some left \<Rightarrow> max 0 (of_nat left))"

definition getUint32Key :: "query \<Rightarrow> string \<Rightarrow> uint32 \<Rightarrow> uint32" where
  "getUint32Key q key def =
     (case queryUint 32 q key of None \<Rightarrow> def | Some left \<Rightarrow> max 0 (of_nat left))"

definition getUintKey :: "query \<Rightarrow> string \<Rightarrow> uint \<Rightarrow> uint" where
  "getUintKey q key def =
     (case queryUint 64 q key of None \<Rightarrow> def | Some left \<Rightarrow> max 0 (of_nat left))"

text \<open>
  Modelled from the spec: \<open>parseAnnounceType\<close> is not among the files at hand. The
  event names are \<open>started\<close>, \<open>completed\<close> and \<open>stopped\<close>; anything else, the empty
  string included, is a regular announce (section 4.4, step 6).
\<close>

definition parseAnnounceType :: "string \<Rightarrow> announceType" where
  "parseAnnounceType t =
     (if t = ''started'' then STARTED
      else if t = ''stopped'' then STOPPED
      else if t = ''completed'' then COMPLETED
      else ANNOUNCE)"

text \<open>
  Modelled from the spec: \<open>model.InfoHashFromString\<close> is not among the files at hand;
  an InfoHash is a 20-byte value (section 3), built like \<open>PeerIDFromString\<close>.
\<close>

definition InfoHashFromString :: "string \<Rightarrow> InfoHash" where
  "InfoHashFromString s = copy (replicate 20 0) (bytes_of s)"

record announceRequest =
  reqCompact :: bool
  reqCorrupt :: uint32
  reqDownloaded :: uint32
  reqEvent :: announceType
  reqIP :: IP
  reqInfoHash :: InfoHash
  reqLeft :: uint32
  reqNumWant :: uint
  reqPeerID :: PeerID
  reqPort :: uint16
  reqUploaded :: uint32

record User =
  userUserID :: uint32

text \<open>
  What the handler sees of one HTTP request (\<open>gin.Context\<close>): the outcome of
  \<open>preFlightChecks\<close> (the user, when valid), the outcome of \<open>queryStringParser\<close> on the
  raw query (the parameters, when it parses), the outcome of \<open>getIP\<close> (the address, when
  there is one), and the clock.
\<close>

record Context =
  preFlight :: "User option"
  rawQuery :: "query option"
  clientIP :: "IP option"
  now :: time

text \<open>
  \<open>newAnnounce\<close>. The event is read from \<open>q.Params[paramNumWant]\<close>, as the source has
  it.
\<close>

definition newAnnounce :: "Context \<Rightarrow> trackerErrCode + announceRequest" where
  "newAnnounce c =
     (case rawQuery c of
        None \<Rightarrow> Inl msgMalformedRequest
      | Some q \<Rightarrow>
     (case q paramInfoHash of
        None \<Rightarrow> Inl msgInvalidInfoHash
      | Some infoHash \<Rightarrow>
     (case q paramPeerID of
        None \<Rightarrow> Inl msgInvalidPeerID
      | Some peerID \<Rightarrow>
     (case clientIP c of
        None \<Rightarrow> Inl msgMalformedRequest
      | Some ipv4 \<Rightarrow>
     (let port = getUint16Key q paramPort 0 in
      if port < 1024 \<or> port > 65535 then Inl msgInvalidPort
      else
        let left = getUint32Key q paramLeft 0;
            downloaded = getUint32Key q paramDownloaded 0;
            uploaded = getUint32Key q paramUploaded 0;
            corrupt = getUint32Key q paramCorrupt 0;
            event = parseAnnounceType (Params q paramNumWant);
            numWant = getUintKey q ''numwant'' 30
        in Inr \<lparr> reqCompact = True,
                 reqCorrupt = corrupt,
                 reqDownloaded = downloaded,
                 reqEvent = event,
                 reqIP = ipv4,
                 reqInfoHash = InfoHashFromString infoHash,
                 reqLeft = left,
                 reqNumWant = numWant,
                 reqPeerID = PeerIDFromString peerID,
                 reqPort = port,
                 reqUploaded = uploaded \<rparr>)))))"

section \<open>Torrents, the tracker and its in-memory swarm index\<close>

datatype storeErr = ErrInvalidInfoHash | ErrNotFound | ErrDuplicate

text \<open>\<open>model.Torrent\<close>, with the fields the redis driver reads and writes.\<close>

record Torrent =
  TorrentID :: uint32
  ReleaseName :: string
  InfoHash :: InfoHash
  TotalCompleted :: "16 word"
  TotalUploaded :: uint32
  TotalDownloaded :: uint32
  IsDeleted :: bool
  IsEnabled :: bool
  Reason :: string
  MultiUp :: real
  MultiDn :: real
  torCreatedOn :: time
  torUpdatedOn :: time

text \<open>
  The handler reaches its stores through the interfaces \<open>h.t.Torrents\<close> and
  \<open>h.t.Peers\<close>. The torrent store is only read, so it is the function from an info
  hash to the outcome of \<open>GetTorrent\<close>. The peer store hands out pointers to \<open>Peer\<close>
  objects which the handler then writes through, so the model has a memory of
  \<open>Peer\<close> objects (\<open>mem\<close>, with \<open>memNext\<close> the next free address) and a swarm index
  holding addresses.
\<close>

type_synonym addr = nat
type_synonym PeerStore = "InfoHash \<Rightarrow> (PeerID \<times> addr) list"

record Tracker =
  Torrents :: "InfoHash \<Rightarrow> storeErr + Torrent"
  Peers :: PeerStore
  MaxPeers :: int
  AnnInterval :: int
  AnnIntervalMin :: int
  mem :: "addr \<Rightarrow> Peer"
  memNext :: addr

text \<open>
  Modelled from the spec: the in-memory peer store behind \<open>h.t.Peers\<close> is not among
  the files at hand (the redis driver's \<open>GetPeer\<close> panics). Section 4.1: a two-level
  mapping from InfoHash to PeerID to Peer; \<open>Add\<close> fails with \<open>Duplicate\<close> when the
  (InfoHash, PeerID) pair exists; \<open>Get\<close> returns the peer or \<open>NotFound\<close>; \<open>Delete\<close>
  removes the membership and returns \<open>NotFound\<close> when there is none; \<open>GetN\<close> returns
  up to \<open>limit\<close> peers of the swarm.
\<close>

definition PeerStore_Get :: "PeerStore \<Rightarrow> InfoHash \<Rightarrow> PeerID \<Rightarrow> storeErr + addr" where
  "PeerStore_Get ps ih pid =
     (case map_of (ps ih) pid of None \<Rightarrow> Inl ErrNotFound | Some a \<Rightarrow> Inr a)"

definition PeerStore_Add ::
  "PeerStore \<Rightarrow> (addr \<Rightarrow> Peer) \<Rightarrow> InfoHash \<Rightarrow> addr \<Rightarrow> storeErr + PeerStore" where
  "PeerStore_Add ps m ih a =
     (case map_of (ps ih) (PeerID (m a)) of
        Some _ \<Rightarrow> Inl ErrDuplicate
      | None \<Rightarrow> Inr (ps(ih := ps ih @ [(PeerID (m a), a)])))"

definition PeerStore_Delete ::
  "PeerStore \<Rightarrow> (addr \<Rightarrow> Peer) \<Rightarrow> InfoHash \<Rightarrow> addr \<Rightarrow> storeErr + PeerStore" where
  "PeerStore_Delete ps m ih a =
     (case map_of (ps ih) (PeerID (m a)) of
        None \<Rightarrow> Inl ErrNotFound
      | Some _ \<Rightarrow> Inr (ps(ih := filter (\<lambda>e. fst e \<noteq> PeerID (m a)) (ps ih))))"

definition PeerStore_GetN :: "PeerStore \<Rightarrow> InfoHash \<Rightarrow> int \<Rightarrow> storeErr + addr list" where
  "PeerStore_GetN ps ih limit = Inr (take (nat limit) (map snd (ps ih)))"

text \<open>
  Modelled from the spec: \<open>Swarm.Counts\<close> is not among the files at hand. Section 4.1:
  (seeders, leechers), where a peer is a seeder iff \<open>Left == 0\<close>.
\<close>

definition Counts :: "Peer list \<Rightarrow> int \<times> int" where
  "Counts sw = (int (length (filter (\<lambda>p. Left p = 0) sw)),
                int (length (filter (\<lambda>p. Left p \<noteq> 0) sw)))"

text \<open>
  Modelled from the spec: \<open>model.NewPeer\<close> is not among the files at hand. Section 4.4,
  step 5: a new Peer has \<open>AnnounceFirst = AnnounceLast = now\<close> and \<open>CreatedOn = now\<close>;
  scenario S1 gives \<open>Announces = 1\<close> after the first announce, so the counters start
  at zero.
\<close>

definition NewPeer :: "uint32 \<Rightarrow> PeerID \<Rightarrow> IP \<Rightarrow> uint16 \<Rightarrow> time \<Rightarrow> Peer" where
  "NewPeer userID peerID ip port tm =
     \<lparr> UserPeerID = 0, SpeedUP = 0, SpeedDN = 0, SpeedUPMax = 0, SpeedDNMax = 0,
       Uploaded = 0, Downloaded = 0, Left = 0, Announces = 0, TotalTime = 0,
       IP = ip, Port = port, AnnounceLast = tm, AnnounceFirst = tm,
       PeerID = peerID, Location = (0, 0), UserID = userID,
       CreatedOn = tm, UpdatedOn = tm \<rparr>"

section \<open>http: the announce handler\<close>

text \<open>
  The body of a successful response is the bencoded dictionary with the keys
  \<open>complete\<close>, \<open>incomplete\<close>, \<open>interval\<close>, \<open>min interval\<close> and \<open>peers\<close>; a failure is the
  tracker error code passed to the error responder, or the torrent's reason text.
  \<open>NoReply\<close> stands for a request that \<open>preFlightChecks\<close> has answered itself.
\<close>

record announceDict =
  dictComplete :: int
  dictIncomplete :: int
  dictInterval :: int
  dictMinInterval :: int
  dictPeers :: "byte list"

datatype response =
  NoReply | Failure trackerErrCode | FailureReason string | Reply announceDict

text \<open>
  Lines 219-228 of the handler: look the peer up; when the lookup fails, allocate a new
  Peer and add it to the swarm. The result is the tracker and the pointer held in
  \<open>peer\<close>, or the tracker alone when \<open>AddPeer\<close> fails.
\<close>

definition resolvePeer ::
  "Tracker \<Rightarrow> User \<Rightarrow> announceRequest \<Rightarrow> Torrent \<Rightarrow> time \<Rightarrow> Tracker + Tracker \<times> addr" where
  "resolvePeer t usr req tor tm =
     (case PeerStore_Get (Peers t) (InfoHash tor) (reqPeerID req) of
        Inr a \<Rightarrow> Inr (t, a)
      | Inl err \<Rightarrow>
          let a = memNext t;
              t1 = t\<lparr> mem := (mem t)(a := NewPeer (userUserID usr) (reqPeerID req)
                                              (reqIP req) (reqPort req) tm),
                      memNext := Suc a \<rparr>
          in case PeerStore_Add (Peers t1) (mem t1) (InfoHash tor) a of
               Inl err \<Rightarrow> Inl t1
             | Inr ps \<Rightarrow> Inr (t1\<lparr> Peers := ps \<rparr>, a))"

text \<open>Lines 231-237: the writes through \<open>peer\<close>.\<close>

definition touchPeer :: "Tracker \<Rightarrow> addr \<Rightarrow> announceRequest \<Rightarrow> time \<Rightarrow> Tracker" where
  "touchPeer t a req tm =
     t\<lparr> mem := (mem t)(a := (mem t a)\<lparr> Uploaded := reqUploaded req,
                                        Downloaded := reqDownloaded req,
                                        Announces := Announces (mem t a) + 1,
                                        Left := reqLeft req,
                                        UpdatedOn := tm \<rparr>) \<rparr>"

text \<open>
  Lines 250-276: read the swarm with the limit \<open>h.t.MaxPeers\<close>, count, and build the
  dictionary.
\<close>

definition reply :: "Tracker \<Rightarrow> Torrent \<Rightarrow> addr \<Rightarrow> Tracker \<times> response" where
  "reply t tor a =
     (case PeerStore_GetN (Peers t) (InfoHash tor) (MaxPeers t) of
        Inl err \<Rightarrow> (t, Failure msgGenericError)
      | Inr sw \<Rightarrow>
          let swarm = map (mem t) sw;
              (seeders, leechers) = Counts swarm
          in (t, Reply \<lparr> dictComplete = seeders,
                         dictIncomplete = leechers,
                         dictInterval = AnnInterval t,
                         dictMinInterval = AnnIntervalMin t,
                         dictPeers = (if swarm \<noteq> [] then makeCompactPeers swarm (PeerID (mem t a))
                                  else []) \<rparr>))"

text \<open>
  Lines 202-276: everything the handler does with a parsed request. On
  \<open>COMPLETED\<close> the counter of the torrent object in hand is incremented; on \<open>STOPPED\<close>
  the peer is deleted from the swarm.
\<close>

definition serve :: "Tracker \<Rightarrow> User \<Rightarrow> announceRequest \<Rightarrow> time \<Rightarrow> Tracker \<times> response" where
  "serve t usr req tm =
     (case Torrents t (reqInfoHash req) of
        Inl err \<Rightarrow> (t, Failure msgInvalidInfoHash)
      | Inr tor \<Rightarrow>
          if IsDeleted tor then (t, Failure msgInvalidInfoHash)
          else if \<not> IsEnabled tor \<and> Reason tor \<noteq> [] then (t, FailureReason (Reason tor))
          else
            case resolvePeer t usr req tor tm of
              Inl t1 \<Rightarrow> (t1, Failure msgGenericError)
            | Inr (t1, a) \<Rightarrow>
                let t2 = touchPeer t1 a req tm in
                case reqEvent req of
                  COMPLETED \<Rightarrow>
                    reply t2 (tor\<lparr> TotalCompleted := TotalCompleted tor + 1 \<rparr>) a
                | STOPPED \<Rightarrow>
                    (case PeerStore_Delete (Peers t2) (mem t2) (InfoHash tor) a of
                       Inl err \<Rightarrow> (t2, Failure msgGenericError)
                     | Inr ps \<Rightarrow> reply (t2\<lparr> Peers := ps \<rparr>) tor a)
                | _ \<Rightarrow> reply t2 tor a)"

text \<open>\<open>announce\<close>: pre-flight checks, parsing, then the above.\<close>

definition announce :: "Tracker \<Rightarrow> Context \<Rightarrow> Tracker \<times> response" where
  "announce t c =
     (case preFlight c of
        None \<Rightarrow> (t, NoReply)
      | Some usr \<Rightarrow>
          (case newAnnounce c of
             Inl code \<Rightarrow> (t, Failure code)
           | Inr req \<Rightarrow> serve t usr req (now c)))"

text \<open>A sequence of requests, handled one after the other.\<close>

fun announces :: "Tracker \<Rightarrow> Context list \<Rightarrow> Tracker" where
  "announces t [] = t"
| "announces t (c # cs) = announces (fst (announce t c)) cs"

text \<open>
  The tracker after \<open>resolvePeer\<close> has created the Peer object \<open>p\<close> for \<open>pid\<close> and
  added it to the swarm \<open>ih\<close>.
\<close>

definition joined :: "Tracker \<Rightarrow> InfoHash \<Rightarrow> PeerID \<Rightarrow> Peer \<Rightarrow> Tracker" where
  "joined t ih pid p =
     t\<lparr> mem := (mem t)(memNext t := p), memNext := Suc (memNext t),
        Peers := (Peers t)(ih := Peers t ih @ [(pid, memNext t)]) \<rparr>"

text \<open>
  \<open>announceFor t ih pid c\<close>: the request \<open>c\<close> passes the pre-flight checks and the
  parser, names the peer \<open>pid\<close> and a torrent that the store returns with info hash
  \<open>ih\<close>, not deleted and not disabled with a reason, and its parsed event is not
  \<open>STOPPED\<close>.
\<close>

definition announceFor :: "Tracker \<Rightarrow> InfoHash \<Rightarrow> PeerID \<Rightarrow> Context \<Rightarrow> bool" where
  "announceFor t ih pid c =
     (case preFlight c of
        None \<Rightarrow> False
      | Some usr \<Rightarrow>
          (case newAnnounce c of
             Inl code \<Rightarrow> False
           | Inr req \<Rightarrow>
               reqPeerID req = pid \<and> reqEvent req \<noteq> STOPPED \<and>
               (case Torrents t (reqInfoHash req) of
                  Inl err \<Rightarrow> False
                | Inr tor \<Rightarrow>
                    InfoHash tor = ih \<and> \<not> IsDeleted tor \<and> (IsEnabled tor \<or> Reason tor = []))))"

section \<open>Sample requests and peers\<close>

text \<open>Concrete inputs on which the theorems below are exercised.\<close>

definition ctxOf :: "uint32 \<Rightarrow> (string \<times> string) list \<Rightarrow> IP \<Rightarrow> time \<Rightarrow> Context" where
  "ctxOf uid kvs ip tm =
     \<lparr> preFlight = Some \<lparr> userUserID = uid \<rparr>, rawQuery = Some (map_of kvs),
       clientIP = Some ip, now = tm \<rparr>"

definition ctxJoin :: Context where
  "ctxJoin = ctxOf 1 [(''info_hash'', ''HHHH''), (''peer_id'', ''P1''), (''port'', ''6881''),
                      (''uploaded'', ''0''), (''downloaded'', ''0''), (''left'', ''1000''),
                      (''event'', ''started'')] [10, 0, 0, 1] 100"

definition ctxPort80 :: Context where
  "ctxPort80 = ctxOf 1 [(''info_hash'', ''HHHH''), (''peer_id'', ''P1''), (''port'', ''80''),
                        (''uploaded'', ''0''), (''downloaded'', ''0''), (''left'', ''1000''),
                        (''event'', ''started'')] [10, 0, 0, 1] 100"

definition ctxNoPort :: Context where
  "ctxNoPort = ctxOf 1 [(''info_hash'', ''HHHH''), (''peer_id'', ''P1''),
                        (''uploaded'', ''0''), (''downloaded'', ''0''), (''left'', ''1000''),
                        (''event'', ''started'')] [10, 0, 0, 1] 100"

definition ctxAgain :: Context where
  "ctxAgain = ctxOf 1 [(''info_hash'', ''HHHH''), (''peer_id'', ''P1''), (''port'', ''6881''),
                       (''uploaded'', ''10''), (''downloaded'', ''20''), (''left'', ''980'')]
                [10, 0, 0, 1] 200"

definition ctxStop :: Context where
  "ctxStop = ctxOf 1 [(''info_hash'', ''HHHH''), (''peer_id'', ''P1''), (''port'', ''6881''),
                      (''uploaded'', ''10''), (''downloaded'', ''20''), (''left'', ''980''),
                      (''event'', ''stopped'')] [10, 0, 0, 1] 300"

definition ctxWant1 :: Context where
  "ctxWant1 = ctxOf 3 [(''info_hash'', ''HHHH''), (''peer_id'', ''P3''), (''port'', ''6883''),
                       (''uploaded'', ''0''), (''downloaded'', ''0''), (''left'', ''1000''),
                       (''numwant'', ''1'')] [10, 0, 0, 3] 400"

definition ih0 :: InfoHash where
  "ih0 = InfoHashFromString ''HHHH''"

definition tor0 :: Torrent where
  "tor0 = \<lparr> TorrentID = 1, ReleaseName = ''release'', InfoHash = ih0, TotalCompleted = 0,
            TotalUploaded = 0, TotalDownloaded = 0, IsDeleted = False, IsEnabled = True,
            Reason = [], MultiUp = 1, MultiDn = 1, torCreatedOn = 0, torUpdatedOn = 0 \<rparr>"

text \<open>A tracker that knows the torrent \<open>tor0\<close> and has no peers yet.\<close>

definition tracker0 :: Tracker where
  "tracker0 = \<lparr> Torrents = (\<lambda>ih. if ih = ih0 then Inr tor0 else Inl ErrInvalidInfoHash),
                Peers = (\<lambda>ih. []), MaxPeers = 50, AnnInterval = 30, AnnIntervalMin = 10,
                mem = (\<lambda>a. NewPeer 0 [] [] 0 0), memNext = 0 \<rparr>"

text \<open>The same tracker with two leechers, P1 and P2, in the swarm of \<open>tor0\<close>.\<close>

definition tracker2 :: Tracker where
  "tracker2 = tracker0\<lparr>
      Peers := (\<lambda>ih. if ih = ih0 then [(PeerIDFromString ''P1'', 0), (PeerIDFromString ''P2'', 1)]
                     else []),
      mem := (\<lambda>a. if a = 0 then (NewPeer 1 (PeerIDFromString ''P1'') [10, 0, 0, 1] 6881 100)
                                   \<lparr> Left := 1000, Announces := 1 \<rparr>
                   else (NewPeer 2 (PeerIDFromString ''P2'') [10, 0, 0, 2] 6882 150)
                                   \<lparr> Left := 1000, Announces := 1 \<rparr>),
      memNext := 2 \<rparr>"

text \<open>A peer with the IPv6 address 2001:db8::1 listening on port 6881.\<close>

definition peerV6 :: Peer where
  "peerV6 = NewPeer 7 (PeerIDFromString ''P6'')
              [0x20, 0x01, 0x0d, 0xb8, 0, 0, 0, 0, 0, 0, 0, 0, 0, 0, 0, 1] 6881 0"

section \<open>Properties of PeerIDFromString\<close>

lemma length_copy: "length (copy dst src) = length dst"
  by (simp add: copy_def Let_def)

lemma PeerIDFromString_eq:
  "PeerIDFromString s = bytes_of (take 20 s) @ replicate (20 - length s) 0"
  by (simp add: PeerIDFromString_def copy_def Let_def bytes_of_def take_map min_def)

lemma InfoHashFromString_eq:
  "InfoHashFromString s = bytes_of (take 20 s) @ replicate (20 - length s) 0"
  by (simp add: InfoHashFromString_def copy_def Let_def bytes_of_def take_map min_def)

text \<open>
  Claim C10. For every string \<open>s\<close>, \<open>PeerIDFromString s\<close> consists of the first
  \<open>min (length s) 20\<close> bytes of \<open>s\<close> followed by zero bytes up to length 20: longer
  inputs are truncated, two strings that agree on their first 20 bytes give the same
  PeerID, and shorter inputs are padded with zeros (the function is total, nothing is
  rejected).
\<close>

theorem PeerIDFromString_truncates_and_pads:
  "PeerIDFromString s =
      bytes_of (take (min (length s) 20) s) @ replicate (20 - min (length s) 20) 0
   \<and> length (PeerIDFromString s) = 20
   \<and> (take 20 s = take 20 t \<longrightarrow> PeerIDFromString s = PeerIDFromString t)"
proof (intro conjI impI)
  show "PeerIDFromString s =
      bytes_of (take (min (length s) 20) s) @ replicate (20 - min (length s) 20) 0"
    by (simp add: PeerIDFromString_eq min_def)
  show "length (PeerIDFromString s) = 20"
    by (simp add: PeerIDFromString_def length_copy)
next
  assume h: "take 20 s = take 20 t"
  then have "length (take 20 s) = length (take 20 t)" by simp
  then have "20 - length s = 20 - length t" by (simp add: min_def split: if_splits)
  with h show "PeerIDFromString s = PeerIDFromString t"
    by (simp add: PeerIDFromString_eq)
qed

theorem PeerIDFromString_witness:
  "take 20 ''-TR2940-k8hj0wgej6chXX'' = take 20 ''-TR2940-k8hj0wgej6chYYY''
   \<and> PeerIDFromString ''-TR2940-k8hj0wgej6chXX'' = PeerIDFromString ''-TR2940-k8hj0wgej6chYYY''
   \<and> PeerIDFromString ''ab'' = [97, 98, 0, 0, 0, 0, 0, 0, 0, 0, 0, 0, 0, 0, 0, 0, 0, 0, 0, 0]"
proof -
  have h: "take 20 ''-TR2940-k8hj0wgej6chXX'' = take 20 ''-TR2940-k8hj0wgej6chYYY''"
    by simp
  have "PeerIDFromString ''ab'' =
      bytes_of (take (min (length ''ab'') 20) ''ab'') @ replicate (20 - min (length ''ab'') 20) 0"
    using PeerIDFromString_truncates_and_pads[of "''ab''" "''ab''"] by blast
  then have p: "PeerIDFromString ''ab'' =
      [97, 98, 0, 0, 0, 0, 0, 0, 0, 0, 0, 0, 0, 0, 0, 0, 0, 0, 0, 0]"
    by (simp add: bytes_of_def numeral_eq_Suc)
  from h PeerIDFromString_truncates_and_pads[of "''-TR2940-k8hj0wgej6chXX''"
      "''-TR2940-k8hj0wgej6chYYY''"]
  have "PeerIDFromString ''-TR2940-k8hj0wgej6chXX'' =
      PeerIDFromString ''-TR2940-k8hj0wgej6chYYY''" by blast
  with h p show ?thesis by blast
qed

section \<open>Properties of makeCompactPeers\<close>

lemma length_To4: "length (To4 ip) = 4 \<or> To4 ip = []"
  by (auto simp: To4_def)

text \<open>
  Every peer that is not skipped contributes the bytes of \<open>To4\<close> of its address and
  two port bytes. On a swarm of 4-byte addresses that is six bytes for each.
\<close>

lemma length_makeCompactPeers:
  "length (makeCompactPeers ps skip) =
     (\<Sum>p \<leftarrow> filter (\<lambda>p. PeerID p \<noteq> skip) ps. length (To4 (IP p)) + 2)"
  by (induction ps) auto

lemma length_makeCompactPeers_ipv4:
  assumes "\<forall>p \<in> set ps. length (IP p) = 4"
  shows "length (makeCompactPeers ps skip) = 6 * length (filter (\<lambda>p. PeerID p \<noteq> skip) ps)"
  using assms by (induction ps) (auto simp: To4_def)

text \<open>
  Claim C3. The claim says that the compact value holds one 6-byte entry for each IPv4
  peer other than the requester and that a peer without an IPv4 address contributes no
  bytes. On the swarm that holds the single IPv6 peer \<open>peerV6\<close>, with a different peer
  asking, the function returns the two port bytes of that peer (6881 is 0x1AE1): the
  address is left out, the port is not.
\<close>

theorem makeCompactPeers_ipv6_port_bytes:
  "makeCompactPeers [peerV6] (PeerIDFromString ''P1'') = [26, 225]"
  by (simp add: peerV6_def NewPeer_def PeerIDFromString_eq bytes_of_def To4_def)

section \<open>Properties of newAnnounce\<close>

lemma port_check:
  "((p :: uint16) < 1024 \<or> p > 65535) \<longleftrightarrow> \<not> (1024 \<le> unat p \<and> unat p \<le> 65535)"
proof -
  have "unat p < 2 ^ 16" using unsigned_less[of p] by simp
  then show ?thesis by (auto simp add: word_less_nat_alt)
qed

lemma getUint16Key_absent: "q key = None \<Longrightarrow> getUint16Key q key def = def"
  by (simp add: getUint16Key_def queryUint_def)

lemma getUint16Key_80: "q key = Some ''80'' \<Longrightarrow> getUint16Key q key def = 80"
  by (simp add: getUint16Key_def queryUint_def ParseUint_def isDigit_def digitVal_def)

text \<open>
  Claim C5. \<open>newAnnounce\<close> answers \<open>msgInvalidPort\<close> exactly when the checks that come
  before the port check pass (the query parses, \<open>info_hash\<close> and \<open>peer_id\<close> are
  present, an address is found) and the parsed port \<open>p\<close>, which is 0 when the key is
  absent or does not parse, fails \<open>1024 \<le> p \<le> 65535\<close>. In particular a request
  with \<open>port=80\<close> and a request without the \<open>port\<close> key are rejected with
  \<open>msgInvalidPort\<close>, and a port in the range never gives \<open>msgInvalidPort\<close>.
\<close>

theorem newAnnounce_InvalidPort_iff:
  "(newAnnounce c = Inl msgInvalidPort \<longleftrightarrow>
     (\<exists>q. rawQuery c = Some q \<and> q paramInfoHash \<noteq> None \<and> q paramPeerID \<noteq> None
        \<and> clientIP c \<noteq> None
        \<and> \<not> (1024 \<le> unat (getUint16Key q paramPort 0)
             \<and> unat (getUint16Key q paramPort 0) \<le> 65535)))
   \<and> (\<forall>q. rawQuery c = Some q \<and> q paramInfoHash \<noteq> None \<and> q paramPeerID \<noteq> None
        \<and> clientIP c \<noteq> None \<and> (q paramPort = None \<or> q paramPort = Some ''80'')
        \<longrightarrow> newAnnounce c = Inl msgInvalidPort)"
proof (intro conjI allI impI)
  show iff: "newAnnounce c = Inl msgInvalidPort \<longleftrightarrow>
     (\<exists>q. rawQuery c = Some q \<and> q paramInfoHash \<noteq> None \<and> q paramPeerID \<noteq> None
        \<and> clientIP c \<noteq> None
        \<and> \<not> (1024 \<le> unat (getUint16Key q paramPort 0)
             \<and> unat (getUint16Key q paramPort 0) \<le> 65535))"
    unfolding newAnnounce_def Let_def port_check
    by (auto split: option.splits)
  fix q
  assume h: "rawQuery c = Some q \<and> q paramInfoHash \<noteq> None \<and> q paramPeerID \<noteq> None
        \<and> clientIP c \<noteq> None \<and> (q paramPort = None \<or> q paramPort = Some ''80'')"
  then have "getUint16Key q paramPort 0 = 0 \<or> getUint16Key q paramPort 0 = 80"
    using getUint16Key_absent[of q paramPort 0] getUint16Key_80[of q paramPort 0] by blast
  then have "\<not> (1024 \<le> unat (getUint16Key q paramPort 0)
             \<and> unat (getUint16Key q paramPort 0) \<le> 65535)"
    by auto
  with h show "newAnnounce c = Inl msgInvalidPort" unfolding iff by blast
qed

lemma getUint16Key_6881: "q key = Some ''6881'' \<Longrightarrow> getUint16Key q key def = 6881"
  by (simp add: getUint16Key_def queryUint_def ParseUint_def isDigit_def digitVal_def)

lemma sample_queries:
  "rawQuery (ctxOf uid kvs ip tm) = Some (map_of kvs)"
  "clientIP (ctxOf uid kvs ip tm) = Some ip"
  "preFlight (ctxOf uid kvs ip tm) = Some \<lparr> userUserID = uid \<rparr>"
  "now (ctxOf uid kvs ip tm) = tm"
  by (simp_all add: ctxOf_def)

theorem newAnnounce_InvalidPort_witness:
  "newAnnounce ctxPort80 = Inl msgInvalidPort
   \<and> newAnnounce ctxNoPort = Inl msgInvalidPort
   \<and> newAnnounce ctxJoin \<noteq> Inl msgInvalidPort"
proof -
  have "\<exists>q. rawQuery ctxPort80 = Some q \<and> q paramInfoHash \<noteq> None \<and> q paramPeerID \<noteq> None
        \<and> clientIP ctxPort80 \<noteq> None \<and> (q paramPort = None \<or> q paramPort = Some ''80'')"
    by (simp add: ctxPort80_def sample_queries paramInfoHash_def paramPeerID_def paramPort_def)
  then have a: "newAnnounce ctxPort80 = Inl msgInvalidPort"
    using newAnnounce_InvalidPort_iff[of ctxPort80] by blast
  have "\<exists>q. rawQuery ctxNoPort = Some q \<and> q paramInfoHash \<noteq> None \<and> q paramPeerID \<noteq> None
        \<and> clientIP ctxNoPort \<noteq> None \<and> (q paramPort = None \<or> q paramPort = Some ''80'')"
    by (simp add: ctxNoPort_def sample_queries paramInfoHash_def paramPeerID_def paramPort_def)
  then have b: "newAnnounce ctxNoPort = Inl msgInvalidPort"
    using newAnnounce_InvalidPort_iff[of ctxNoPort] by blast
  have c: "newAnnounce ctxJoin \<noteq> Inl msgInvalidPort"
  proof
    assume "newAnnounce ctxJoin = Inl msgInvalidPort"
    then obtain q where q: "rawQuery ctxJoin = Some q"
      and r: "\<not> (1024 \<le> unat (getUint16Key q paramPort 0)
             \<and> unat (getUint16Key q paramPort 0) \<le> 65535)"
      using newAnnounce_InvalidPort_iff[of ctxJoin] by blast
    from q have "q paramPort = Some ''6881''"
      by (auto simp add: ctxJoin_def sample_queries paramPort_def)
    then have "getUint16Key q paramPort 0 = 6881" by (rule getUint16Key_6881)
    with r show False by simp
  qed
  from a b c show ?thesis by blast
qed

end
